theory Spec2Isabelle
  imports Main "HOL-Library.Word" "HOL-Library.AList"
begin

chapter \<open>The model of the source\<close>

section \<open>Python values of a vehicle components document\<close>

text \<open>
  A document is what \<^verbatim>\<open>json.load\<close> returns: \<^verbatim>\<open>None\<close>, a \<^verbatim>\<open>bool\<close>, an unbounded
  \<^verbatim>\<open>int\<close>, a \<^verbatim>\<open>float\<close> (the 64 bits of the IEEE double, so that \<^verbatim>\<open>0.0\<close> is the
  word \<open>0\<close>), a \<^verbatim>\<open>str\<close>, a \<^verbatim>\<open>list\<close> or a \<^verbatim>\<open>dict\<close> with string keys. A dict is an
  association list in insertion order; strings are lists of 8-bit characters.
\<close>

datatype pyval =
    PNone
  | PBool bool
  | PInt int
  | PFloat "64 word"
  | PStr string
  | PList "pyval list"
  | PDict "(string \<times> pyval) list"

text \<open>
  \<^verbatim>\<open>isinstance(value, T)\<close> for the types the source tests. \<^verbatim>\<open>bool\<close> is a subclass of
  \<^verbatim>\<open>int\<close> in Python, so \<^verbatim>\<open>isinstance(True, int)\<close> holds.
\<close>

fun isinstance_dict :: "pyval \<Rightarrow> bool" where
  "isinstance_dict (PDict _) = True"
| "isinstance_dict _ = False"

fun isinstance_list :: "pyval \<Rightarrow> bool" where
  "isinstance_list (PList _) = True"
| "isinstance_list _ = False"

fun isinstance_int :: "pyval \<Rightarrow> bool" where
  "isinstance_int (PInt _) = True"
| "isinstance_int (PBool _) = True"
| "isinstance_int _ = False"

fun isinstance_float :: "pyval \<Rightarrow> bool" where
  "isinstance_float (PFloat _) = True"
| "isinstance_float _ = False"

fun isinstance_bool :: "pyval \<Rightarrow> bool" where
  "isinstance_bool (PBool _) = True"
| "isinstance_bool _ = False"

fun isinstance_str :: "pyval \<Rightarrow> bool" where
  "isinstance_str (PStr _) = True"
| "isinstance_str _ = False"

text \<open>
  The state of a \<^verbatim>\<open>VehicleComponents\<close> object: the loaded document and the cached
  schema, each \<open>PNone\<close> until it is set.
\<close>

record VehicleComponents =
  vehicle_components :: pyval
  schema :: pyval

section \<open>Wiping a document: \<^verbatim>\<open>wipe_component_info\<close>\<close>

text \<open>
  \<^verbatim>\<open>_recursively_clear_dict\<close> mutates the dict in place and returns nothing; the model
  returns the dict after the loop. The loop assigns only to keys that exist, so the
  order and the number of the items stay as they are. The branches are in the order of
  the source.
\<close>

function recursively_clear_dict :: "pyval \<Rightarrow> pyval" where
  "recursively_clear_dict (PDict items) =
     PDict (map (\<lambda>(key, value).
       (key,
        if isinstance_dict value then recursively_clear_dict value
        else if isinstance_list value then PList []
        else if isinstance_int value \<or> isinstance_float value then
          (if isinstance_int value then PInt 0 else PFloat 0)
        else if isinstance_bool value then PBool False
        else (if isinstance_str value then PStr [] else PNone))) items)"
| "recursively_clear_dict PNone = PNone"
| "recursively_clear_dict (PBool b) = PBool b"
| "recursively_clear_dict (PInt i) = PInt i"
| "recursively_clear_dict (PFloat f) = PFloat f"
| "recursively_clear_dict (PStr s) = PStr s"
| "recursively_clear_dict (PList xs) = PList xs"
  by pat_completeness auto
termination
proof (relation "measure size", simp, goal_cases)
  case (1 items kv key v)
  then have "(key, v) \<in> set items" by simp
  then have "size v < Suc (size_list (size_prod (\<lambda>_. 0) size) items)"
    by (induction items) auto
  then show ?case by simp
qed

definition wipe_component_info :: "VehicleComponents \<Rightarrow> VehicleComponents" where
  "wipe_component_info self =
     (if vehicle_components self \<noteq> PNone then
        self\<lparr>vehicle_components := recursively_clear_dict (vehicle_components self)\<rparr>
      else self)"




section \<open>Exceptions\<close>

text \<open>
  The exception classes that the source names in its \<^verbatim>\<open>except\<close> clauses or that its
  operations raise, with the method resolution order of each. An \<^verbatim>\<open>except C\<close> clause
  takes an exception whose class has \<open>C\<close> in its resolution order.
\<close>

datatype exc_class =
    BaseException | Exception | KeyboardInterrupt
  | OSError | FileNotFoundError | PermissionError | IsADirectoryError | NotADirectoryError
  | TypeError | ValueError | JSONDecodeError | UnicodeDecodeError
  | LookupError | KeyError | IndexError | AttributeError
  | RuntimeError | RecursionError
  | ValidationError | SchemaError

fun mro :: "exc_class \<Rightarrow> exc_class list" where
  "mro BaseException = [BaseException]"
| "mro Exception = [Exception, BaseException]"
| "mro KeyboardInterrupt = [KeyboardInterrupt, BaseException]"
| "mro OSError = [OSError, Exception, BaseException]"
| "mro FileNotFoundError = [FileNotFoundError, OSError, Exception, BaseException]"
| "mro PermissionError = [PermissionError, OSError, Exception, BaseException]"
| "mro IsADirectoryError = [IsADirectoryError, OSError, Exception, BaseException]"
| "mro NotADirectoryError = [NotADirectoryError, OSError, Exception, BaseException]"
| "mro TypeError = [TypeError, Exception, BaseException]"
| "mro ValueError = [ValueError, Exception, BaseException]"
| "mro JSONDecodeError = [JSONDecodeError, ValueError, Exception, BaseException]"
| "mro UnicodeDecodeError = [UnicodeDecodeError, ValueError, Exception, BaseException]"
| "mro LookupError = [LookupError, Exception, BaseException]"
| "mro KeyError = [KeyError, LookupError, Exception, BaseException]"
| "mro IndexError = [IndexError, LookupError, Exception, BaseException]"
| "mro AttributeError = [AttributeError, Exception, BaseException]"
| "mro RuntimeError = [RuntimeError, Exception, BaseException]"
| "mro RecursionError = [RecursionError, RuntimeError, Exception, BaseException]"
| "mro ValidationError = [ValidationError, Exception, BaseException]"
| "mro SchemaError = [SchemaError, Exception, BaseException]"

definition issubclass :: "exc_class \<Rightarrow> exc_class \<Rightarrow> bool" where
  "issubclass c d = List.member (mro c) d"

text \<open>A raised exception: its class and the text of \<^verbatim>\<open>str(e)\<close>.\<close>

datatype exception = Raised (cls: exc_class) (str: string)

text \<open>
  A computation that may raise returns \<open>Inl\<close> of what it raised. Sequencing stops at the
  first exception.
\<close>

definition and_then :: "'e + 'a \<Rightarrow> ('a \<Rightarrow> 'e + 'b) \<Rightarrow> 'e + 'b" where
  "and_then m f = (case m of Inl e \<Rightarrow> Inl e | Inr x \<Rightarrow> f x)"

section \<open>Python operations on values\<close>







text \<open>
  \<^verbatim>\<open>container.pop(key)\<close> with a string key: the value removed and the container after
  it. A list has \<^verbatim>\<open>pop\<close>, but its argument must be an integer.
\<close>

fun py_pop :: "pyval \<Rightarrow> string \<Rightarrow> exc_class + (pyval \<times> pyval)" where
  "py_pop (PDict items) key =
     (case map_of items key of
        None \<Rightarrow> Inl KeyError
      | Some v \<Rightarrow> Inr (v, PDict (AList.delete key items)))"
| "py_pop (PList xs) key = Inl TypeError"
| "py_pop PNone key = Inl AttributeError"
| "py_pop (PBool b) key = Inl AttributeError"
| "py_pop (PInt i) key = Inl AttributeError"
| "py_pop (PFloat f) key = Inl AttributeError"
| "py_pop (PStr s) key = Inl AttributeError"





section \<open>Regular expressions of the source\<close>





section \<open>Firmware type and version of the loaded document\<close>










section \<open>Messages\<close>

text \<open>
  \<^verbatim>\<open>template.format(*args)\<close> for templates whose replacement fields are all \<^verbatim>\<open>{}\<close>, as
  those of the source are: each field takes the next argument. The lookup \<^verbatim>\<open>_\<close> of the
  message catalogue is not part of the sources at hand; the functions that build messages
  take it as the parameter \<open>tr\<close>, which is the identity where no catalogue is installed.
\<close>

fun py_format :: "string \<Rightarrow> string list \<Rightarrow> string" where
  "py_format [] args = []"
| "py_format [c] args = [c]"
| "py_format (c # d # cs) args =
     (if c = CHR ''{'' \<and> d = CHR ''}'' then
        (case args of [] \<Rightarrow> c # d # py_format cs [] | a # rest \<Rightarrow> a @ py_format cs rest)
      else c # py_format (d # cs) args)"

text \<open>\<^verbatim>\<open>os.path.join(a, b)\<close> of \<^verbatim>\<open>posixpath\<close>, for a relative \<open>b\<close>.\<close>

definition os_path_join :: "string \<Rightarrow> string \<Rightarrow> string" where
  "os_path_join a b = (if a = [] \<or> last a = CHR ''/'' then a @ b else a @ ''/'' @ b)"

definition vehicle_components_json_filename :: string where
  "vehicle_components_json_filename = ''vehicle_components.json''"

section \<open>Handling exceptions\<close>

text \<open>
  A \<^verbatim>\<open>try\<close> statement runs the first \<^verbatim>\<open>except\<close> clause whose class the exception is an
  instance of; with no such clause the exception propagates.
\<close>

fun handle_first :: "(exc_class \<times> (exception \<Rightarrow> 'a)) list \<Rightarrow> exception \<Rightarrow> 'a option" where
  "handle_first [] e = None"
| "handle_first ((c, handler) # clauses) e =
     (if issubclass (cls e) c then Some (handler e) else handle_first clauses e)"

section \<open>Saving the document: \<^verbatim>\<open>save_vehicle_components_json_data\<close>\<close>

text \<open>
  The body of the \<^verbatim>\<open>try\<close> opens the file for writing and dumps the document into it.
  What the file system and the serializer do is the parameter \<open>written\<close>: \<open>None\<close> when
  both return, the exception otherwise. Each clause logs its message and returns it.
\<close>

definition save_clauses :: "(string \<Rightarrow> string) \<Rightarrow> string \<Rightarrow> string \<Rightarrow> (exc_class \<times> (exception \<Rightarrow> string)) list" where
  "save_clauses tr vehicle_dir filepath =
     [(FileNotFoundError, \<lambda>e. py_format (tr ''Directory '{}' not found'') [vehicle_dir]),
      (PermissionError, \<lambda>e.
         py_format (tr (''Permission denied when writing to file '{}'' @ [CHR 0x27])) [filepath]),
      (IsADirectoryError, \<lambda>e. py_format (tr ''Path '{}' is a directory, not a file'') [filepath]),
      (OSError, \<lambda>e. py_format (tr ''OS error when writing to file '{}': {}'') [filepath, str e]),
      (TypeError, \<lambda>e. py_format (tr ''Type error when serializing data to JSON: {}'') [str e]),
      (ValueError, \<lambda>e. py_format (tr ''Value error when serializing data to JSON: {}'') [str e]),
      (Exception, \<lambda>e.
         py_format (tr ''Unexpected error saving data to file '{}': {}'') [filepath, str e])]"

definition save_vehicle_components_json_data ::
  "(string \<Rightarrow> string) \<Rightarrow> exception option \<Rightarrow> pyval \<Rightarrow> string \<Rightarrow> exception + (bool \<times> string)" where
  "save_vehicle_components_json_data tr written data vehicle_dir =
     (let filepath = os_path_join vehicle_dir vehicle_components_json_filename in
      case written of
        None \<Rightarrow> Inr (False, [])
      | Some e \<Rightarrow>
          (case handle_first (save_clauses tr vehicle_dir filepath) e of
             Some msg \<Rightarrow> Inr (True, msg)
           | None \<Rightarrow> Inl e))"

text \<open>The class of the clause that takes an exception, the failure cause that it stands for.\<close>

definition save_cause :: "exception \<Rightarrow> exc_class option" where
  "save_cause e =
     find (\<lambda>c. issubclass (cls e) c)
       [FileNotFoundError, PermissionError, IsADirectoryError, OSError, TypeError, ValueError,
        Exception]"

section \<open>Validating a document: \<^verbatim>\<open>validate_vehicle_components\<close>\<close>



section \<open>Writing the entered values back: \<^verbatim>\<open>save_component_json\<close>\<close>






chapter \<open>Properties\<close>

section \<open>Properties of the wipe\<close>







text \<open>
  C1. A boolean leaf is an instance of \<^verbatim>\<open>int\<close>, so the numeric branch, which comes
  before the boolean branch, takes it: the wipe stores the integer \<open>0\<close>, not \<^verbatim>\<open>False\<close>.
\<close>

theorem wipe_boolean_leaf_becomes_int_zero:
  "wipe_component_info \<lparr>vehicle_components = PDict [(''Armed'', PBool True)], schema = PNone\<rparr>
     = \<lparr>vehicle_components = PDict [(''Armed'', PInt 0)], schema = PNone\<rparr>"
  by (simp add: wipe_component_info_def)

section \<open>Sequencing\<close>

lemma and_then_Inl [simp]: "and_then (Inl e) f = Inl e"
  by (simp add: and_then_def)

lemma and_then_Inr [simp]: "and_then (Inr x) f = f x"
  by (simp add: and_then_def)


section \<open>The version pattern\<close>






section \<open>Firmware type and version\<close>










section \<open>Saving the document\<close>

lemma handle_first_Exception:
  assumes "issubclass (cls e) Exception" and "(Exception, h) \<in> set clauses"
  shows "\<exists>m. handle_first clauses e = Some m"
  using assms by (induction clauses) auto

lemma save_failed_of_Exception:
  assumes "issubclass (cls e) Exception"
  shows "\<exists>m. save_vehicle_components_json_data tr (Some e) data vehicle_dir = Inr (True, m)"
proof -
  let ?clauses = "save_clauses tr vehicle_dir (os_path_join vehicle_dir vehicle_components_json_filename)"
  have "\<exists>h. (Exception, h) \<in> set ?clauses"
    by (simp add: save_clauses_def)
  with handle_first_Exception [OF assms] obtain m where "handle_first ?clauses e = Some m"
    by blast
  then show ?thesis
    by (simp add: save_vehicle_components_json_data_def)
qed

text \<open>The first two characters of the untranslated message tell the clause.\<close>

lemma save_message_prefix:
  assumes "handle_first (save_clauses (\<lambda>s. s) vehicle_dir filepath) e = Some m"
  shows "(save_cause e, take 2 m) \<in> set
           [(Some FileNotFoundError, ''Di''), (Some PermissionError, ''Pe''),
            (Some IsADirectoryError, ''Pa''), (Some OSError, ''OS''), (Some TypeError, ''Ty''),
            (Some ValueError, ''Va''), (Some Exception, ''Un'')]"
  using assms
  by (simp add: save_clauses_def save_cause_def split: if_splits) auto

lemma save_messages_distinct:
  assumes "save_cause e1 \<noteq> save_cause e2"
    and "save_vehicle_components_json_data (\<lambda>s. s) (Some e1) data1 dir1 = Inr (failed1, m1)"
    and "save_vehicle_components_json_data (\<lambda>s. s) (Some e2) data2 dir2 = Inr (failed2, m2)"
  shows "m1 \<noteq> m2"
proof
  assume eq: "m1 = m2"
  from assms(2) have 1: "handle_first (save_clauses (\<lambda>s. s) dir1
      (os_path_join dir1 vehicle_components_json_filename)) e1 = Some m1"
    by (simp add: save_vehicle_components_json_data_def split: option.splits)
  from assms(3) have 2: "handle_first (save_clauses (\<lambda>s. s) dir2
      (os_path_join dir2 vehicle_components_json_filename)) e2 = Some m2"
    by (simp add: save_vehicle_components_json_data_def split: option.splits)
  from save_message_prefix [OF 1] save_message_prefix [OF 2] assms(1) show False
    unfolding eq by auto
qed

lemma save_directory_missing:
  assumes "issubclass (cls e) FileNotFoundError"
  shows "save_vehicle_components_json_data (\<lambda>s. s) (Some e) data vehicle_dir
           = Inr (True, ''Directory '' @ [CHR 0x27] @ vehicle_dir @ [CHR 0x27] @ '' not found'')"
  using assms by (simp add: save_vehicle_components_json_data_def save_clauses_def)

text \<open>
  C6. Saving returns \<open>(False, "")\<close> when the write succeeds. For every exception that the
  write raises (an instance of \<^verbatim>\<open>Exception\<close>) it returns \<open>(True, message)\<close> and raises
  nothing; a missing directory gives the message that names the directory; and two
  failures that different clauses take (directory missing, permission denied, path is a
  directory, other OS error, type error, value error, anything else) give different
  messages, whatever the directories and the texts of the exceptions are.
\<close>

theorem save_reports_every_failure:
  "save_vehicle_components_json_data tr None data vehicle_dir = Inr (False, [])
   \<and> (issubclass (cls e) Exception \<longrightarrow>
        (\<exists>m. save_vehicle_components_json_data tr (Some e) data vehicle_dir = Inr (True, m)))
   \<and> (issubclass (cls e) FileNotFoundError \<longrightarrow>
        save_vehicle_components_json_data (\<lambda>s. s) (Some e) data vehicle_dir
          = Inr (True, ''Directory '' @ [CHR 0x27] @ vehicle_dir @ [CHR 0x27] @ '' not found''))
   \<and> (\<forall>e' data' dir' failed m failed' m'.
        save_cause e \<noteq> save_cause e'
        \<and> save_vehicle_components_json_data (\<lambda>s. s) (Some e) data vehicle_dir = Inr (failed, m)
        \<and> save_vehicle_components_json_data (\<lambda>s. s) (Some e') data' dir' = Inr (failed', m')
        \<longrightarrow> m \<noteq> m')"
  using save_failed_of_Exception [of e tr data vehicle_dir]
    save_directory_missing [of e data vehicle_dir]
    save_messages_distinct [of e]
  by (simp add: save_vehicle_components_json_data_def [of tr None]) blast

text \<open>A missing directory, and a permission error in the same place.\<close>

theorem save_reports_every_failure_witness:
  "save_vehicle_components_json_data (\<lambda>s. s) (Some (Raised FileNotFoundError ''No such file'')) PNone ''/no/dir''
     = Inr (True, ''Directory '' @ [CHR 0x27] @ ''/no/dir'' @ [CHR 0x27] @ '' not found'')
   \<and> save_vehicle_components_json_data (\<lambda>s. s) (Some (Raised FileNotFoundError ''No such file'')) PNone ''/no/dir''
     \<noteq> save_vehicle_components_json_data (\<lambda>s. s) (Some (Raised PermissionError ''denied'')) PNone ''/no/dir''"
proof -
  let ?e = "Raised FileNotFoundError ''No such file''"
  let ?e' = "Raised PermissionError ''denied''"
  note inst = save_reports_every_failure [of "\<lambda>s. s" PNone "''/no/dir''" ?e]
  have sub: "issubclass (cls ?e) FileNotFoundError" "issubclass (cls ?e) Exception"
    "issubclass (cls ?e') Exception"
    by (simp_all add: issubclass_def)
  have ne: "save_cause ?e \<noteq> save_cause ?e'"
    by (simp add: save_cause_def issubclass_def)
  from inst sub(1) have 1: "save_vehicle_components_json_data (\<lambda>s. s) (Some ?e) PNone ''/no/dir''
     = Inr (True, ''Directory '' @ [CHR 0x27] @ ''/no/dir'' @ [CHR 0x27] @ '' not found'')"
    by blast
  from save_failed_of_Exception [OF sub(3), of "\<lambda>s. s" PNone "''/no/dir''"]
  obtain m' where 2: "save_vehicle_components_json_data (\<lambda>s. s) (Some ?e') PNone ''/no/dir'' = Inr (True, m')"
    by blast
  from inst ne 1 2 have "''Directory '' @ [CHR 0x27] @ ''/no/dir'' @ [CHR 0x27] @ '' not found'' \<noteq> m'"
    by blast
  with 1 2 show ?thesis by simp
qed

section \<open>Validating a document\<close>








section \<open>Writing the entered values back\<close>










end
